theory Spec2Isabelle
  imports Main "HOL-Library.Word"
begin

section \<open>Layout model\<close>

text \<open>
  Modelled from the spec: the declaration of \<open>LayoutDimension\<close> is missing (the layout
  attributes are declared in the VectorExt dialect, outside
  \<open>GPUDistributionPatterns.cpp\<close>). A label is one of the three lane coordinates, a
  vectorized or batched axis, or another structural axis. The source names
  \<open>LANEX\<close>, \<open>LANEY\<close>, \<open>LANEZ\<close> and \<open>VECTORX\<close>; every other label takes the
  \<open>default\<close> branch of the switch in \<open>computeSIMDIndex\<close>.
\<close>

datatype LayoutDimension =
  BATCHX | BATCHY | VECTORY | VECTORX | VECTORZ | LANEX | LANEY | LANEZ

definition isLane :: "LayoutDimension \<Rightarrow> bool" where
  "isLane l = (l = LANEX \<or> l = LANEY \<or> l = LANEZ)"

text \<open>
  Modelled from the spec: the declaration of \<open>PerDimLayoutAttr\<close> is missing. One
  per-dimension layout is an ordered sequence of (label, extent) pairs, slowest-changing
  first; \<open>getLabels\<close> and \<open>getShapes\<close> are its two projections, \<open>getShape\<close> the
  extent of a label when the label is present.
\<close>

record PerDimLayoutAttr =
  entries :: "(LayoutDimension \<times> int) list"

definition getLabels :: "PerDimLayoutAttr \<Rightarrow> LayoutDimension list" where
  "getLabels d = map fst (entries d)"

definition getShapes :: "PerDimLayoutAttr \<Rightarrow> int list" where
  "getShapes d = map snd (entries d)"

definition getShape :: "PerDimLayoutAttr \<Rightarrow> LayoutDimension \<Rightarrow> int option" where
  "getShape d l = map_of (entries d) l"

text \<open>
  Modelled from the spec: the declaration of \<open>LayoutAttr\<close> is missing. A layout is an
  ordered sequence of per-dimension layouts plus a lane-grid extent (X, Y, Z).
\<close>

record LayoutAttr =
  getLayouts :: "PerDimLayoutAttr list"
  getLaneGrid :: "int \<times> int \<times> int"

text \<open>
  Modelled from the spec: \<open>LayoutAttr::getDistributedShape\<close> is missing. Per dimension,
  the product of all non-lane-label extents.
\<close>

definition LayoutAttr_getDistributedShape :: "LayoutAttr \<Rightarrow> int list" where
  "LayoutAttr_getDistributedShape layout =
     map (\<lambda>d. prod_list (map snd (filter (\<lambda>(l, e). \<not> isLane l) (entries d))))
       (getLayouts layout)"

text \<open>
  Modelled from the spec: \<open>permute\<close> is missing. The per-dimension list reordered by
  \<open>perm\<close>; it fails when \<open>perm\<close> is not a permutation of the dimension count.
\<close>

definition isPermutationVector :: "int list \<Rightarrow> nat \<Rightarrow> bool" where
  "isPermutationVector perm n =
     (length perm = n \<and> distinct perm \<and> list_all (\<lambda>i. 0 \<le> i \<and> i < int n) perm)"

definition permute :: "LayoutAttr \<Rightarrow> int list \<Rightarrow> LayoutAttr option" where
  "permute layout perm =
     (if isPermutationVector perm (length (getLayouts layout))
      then Some (layout\<lparr>getLayouts := map (\<lambda>i. getLayouts layout ! nat i) perm\<rparr>)
      else None)"

text \<open>
  Modelled from the spec: the declaration of \<open>VectorLayoutInterface\<close> is missing. It
  is an attribute interface; \<open>LayoutAttr\<close> is the implementation the transfer patterns
  \<open>dyn_cast\<close> to, and a layout assignment can be of another kind. Any other
  implementation is known to the source by its distributed shape only.
\<close>

datatype VectorLayoutInterface =
    Layout LayoutAttr
  | OtherLayout "int list"

fun getDistributedShape :: "VectorLayoutInterface \<Rightarrow> int list" where
  "getDistributedShape (Layout l) = LayoutAttr_getDistributedShape l"
| "getDistributedShape (OtherLayout shape) = shape"

text \<open>
  Modelled from the spec: \<open>LayoutIterator::State\<close> is missing. The source reads a
  state through \<open>state.lookup(label).getPosition()\<close> and \<open>state.computeSIMTIndex()\<close>
  only.
\<close>

record State =
  getPosition :: "LayoutDimension \<Rightarrow> int"
  computeSIMTIndex :: "int list"

section \<open>Affine expressions and maps\<close>

text \<open>
  A value of \<open>int64_t\<close> and a run-time value of type \<open>index\<close> have 64 bits, two's
  complement: \<open>wrap64\<close> takes an integer to the value it has there.
\<close>

definition wrap64 :: "int \<Rightarrow> int" where
  "wrap64 k = sint (word_of_int k :: 64 word)"

text \<open>
  The part of MLIR's affine expressions the source touches. Positions are \<open>unsigned\<close>,
  a constant is an \<open>int64_t\<close>. The \<open>+\<close> and \<open>*\<close> of the C++ class fold constants,
  in \<open>int64_t\<close>; the folded and the unfolded expression have the same value in 64-bit
  arithmetic, and the model keeps the unfolded one.
\<close>

datatype AffineExpr =
    AffineConstantExpr "64 word"
  | AffineDimExpr "32 word"
  | AffineSymbolExpr "32 word"
  | AffineAdd AffineExpr AffineExpr
  | AffineMul AffineExpr AffineExpr
  | AffineMod AffineExpr AffineExpr
  | AffineFloorDiv AffineExpr AffineExpr
  | AffineCeilDiv AffineExpr AffineExpr

record AffineMap =
  getNumDims :: "32 word"
  getNumSymbols :: "32 word"
  getResults :: "AffineExpr list"

definition getAffineConstantExpr :: "int \<Rightarrow> AffineExpr" where
  "getAffineConstantExpr constant = AffineConstantExpr (word_of_int constant)"

definition getNumResults :: "AffineMap \<Rightarrow> 32 word" where
  "getNumResults m = of_nat (length (getResults m))"

definition AffineMap_get :: "32 word \<Rightarrow> 32 word \<Rightarrow> AffineExpr \<Rightarrow> AffineMap" where
  "AffineMap_get dimCount symbolCount result =
     \<lparr>getNumDims = dimCount, getNumSymbols = symbolCount, getResults = [result]\<rparr>"

text \<open>
  The value of an affine expression at dimension and symbol operands, as \<open>affine.apply\<close>
  computes it at run time: sums and products wrap around in 64 bits. A division or
  remainder by a non-positive right-hand side has no defined value.
\<close>

fun evalAffine :: "int list \<Rightarrow> int list \<Rightarrow> AffineExpr \<Rightarrow> int option" where
  "evalAffine ds ss (AffineConstantExpr c) = Some (sint c)"
| "evalAffine ds ss (AffineDimExpr p) =
     (if unat p < length ds then Some (ds ! unat p) else None)"
| "evalAffine ds ss (AffineSymbolExpr p) =
     (if unat p < length ss then Some (ss ! unat p) else None)"
| "evalAffine ds ss (AffineAdd a b) =
     (case (evalAffine ds ss a, evalAffine ds ss b) of
        (Some x, Some y) \<Rightarrow> Some (wrap64 (x + y)) | _ \<Rightarrow> None)"
| "evalAffine ds ss (AffineMul a b) =
     (case (evalAffine ds ss a, evalAffine ds ss b) of
        (Some x, Some y) \<Rightarrow> Some (wrap64 (x * y)) | _ \<Rightarrow> None)"
| "evalAffine ds ss (AffineMod a b) =
     (case (evalAffine ds ss a, evalAffine ds ss b) of
        (Some x, Some y) \<Rightarrow> (if y \<le> 0 then None else Some (x mod y)) | _ \<Rightarrow> None)"
| "evalAffine ds ss (AffineFloorDiv a b) =
     (case (evalAffine ds ss a, evalAffine ds ss b) of
        (Some x, Some y) \<Rightarrow> (if y \<le> 0 then None else Some (x div y)) | _ \<Rightarrow> None)"
| "evalAffine ds ss (AffineCeilDiv a b) =
     (case (evalAffine ds ss a, evalAffine ds ss b) of
        (Some x, Some y) \<Rightarrow> (if y \<le> 0 then None else Some (- ((- x) div y))) | _ \<Rightarrow> None)"

section \<open>Types, attributes, values and created operations\<close>

datatype Type =
    IndexType
  | ElementType string
  | VectorType "int list" Type
  | MemRefType "int list" Type
  | NoneType

fun isVectorType :: "Type \<Rightarrow> bool" where
  "isVectorType (VectorType shape elementType) = True"
| "isVectorType _ = False"

fun getElementType :: "Type \<Rightarrow> Type" where
  "getElementType (VectorType shape elementType) = elementType"
| "getElementType (MemRefType shape elementType) = elementType"
| "getElementType t = NoneType"

datatype Attribute =
    ScalarAttr string
  | FastMathFlagsAttr nat
  | SplatElementsAttr Type Attribute
  | DenseElementsAttr Type "Attribute list"

fun isSplat :: "Attribute \<Rightarrow> bool" where
  "isSplat (SplatElementsAttr t v) = True"
| "isSplat _ = False"

text \<open>The elements a splat denotes: the one scalar, once per element of the shape.\<close>

fun getNumElements :: "Type \<Rightarrow> nat" where
  "getNumElements (VectorType shape elementType) = nat (prod_list shape)"
| "getNumElements (MemRefType shape elementType) = nat (prod_list shape)"
| "getNumElements t = 1"

fun getValues :: "Attribute \<Rightarrow> Attribute list" where
  "getValues (SplatElementsAttr t v) = replicate (getNumElements t) v"
| "getValues (DenseElementsAttr t vs) = vs"
| "getValues a = [a]"

text \<open>
  A value is either defined outside the pattern under consideration (an operand or result
  of the original program, the lane id, a transfer index), known by an identifier and its
  type, or it is a result of an operation the rewriter created. \<open>DelinearizeIndex\<close>
  stands for the operations one call of MLIR's \<open>affine::delinearizeIndex\<close> emits; its
  results are the coordinates, slowest first. \<open>ToSIMTOp\<close> is what the driver's
  \<open>getDistributed\<close> yields for a value and a distributed shape.
\<close>

datatype Val =
    External nat Type
  | Result Op nat
and Op =
    ConstantIndexOp int
  | DelinearizeIndex Val "Val list"
  | AffineApplyOp AffineMap "Val list"
  | AddIOp Val Val
  | ConstantOp Type Attribute
  | ZeroConstantOp Type
  | ToSIMTOp Type Val
  | LoadOp Type Val "Val list"
  | InsertStridedSliceOp Val Val "int list" "int list"
  | ExtractStridedSliceOp Val "int list" "int list" "int list"
  | ExtractOp Val "int list"
  | StoreOp Val Val "Val list"
  | CreatedOp string "Val list" "Type list" "(string \<times> Attribute) list"

type_synonym Rewriter = "Op list"

section \<open>Run-time meaning of index values\<close>

text \<open>
  MLIR's \<open>affine::delinearizeIndex(linearIndex, basis)\<close>: the divisors are the
  products of the proper suffixes of the basis; the linear index is divided by each in
  turn (floor division), the remainder is carried on and is the last result. The call
  itself does not fail for a basis that is not empty, so that the \<open>assert\<close> of source
  line 70 holds; what has no defined value is a division by a divisor that is not
  positive, at run time.
\<close>

fun delinearizeLoop :: "int \<Rightarrow> int list \<Rightarrow> int list option" where
  "delinearizeLoop residual [] = Some [residual]"
| "delinearizeLoop residual (divisor # divisors) =
     (if divisor \<le> 0 then None
      else map_option ((#) (residual div divisor))
             (delinearizeLoop (residual mod divisor) divisors))"

definition delinearizeIndex :: "int \<Rightarrow> int list \<Rightarrow> int list option" where
  "delinearizeIndex linearIndex basis =
     delinearizeLoop linearIndex (map (\<lambda>i. prod_list (drop i basis)) [1..<length basis])"

text \<open>
  The integer an index value holds at run time, given the integers \<open>env\<close> of the
  externally defined index values. \<open>None\<close>: the value is not an index, or its
  computation has no defined result.
\<close>

fun evalVal :: "(nat \<Rightarrow> int) \<Rightarrow> Val \<Rightarrow> int option"
  and evalOp :: "(nat \<Rightarrow> int) \<Rightarrow> Op \<Rightarrow> int list option"
  and evalVals :: "(nat \<Rightarrow> int) \<Rightarrow> Val list \<Rightarrow> int list option" where
  "evalVal env (External n t) = (if t = IndexType then Some (env n) else None)"
| "evalVal env (Result op n) =
     (case evalOp env op of
        None \<Rightarrow> None
      | Some rs \<Rightarrow> (if n < length rs then Some (rs ! n) else None))"
| "evalOp env (ConstantIndexOp c) = Some [c]"
| "evalOp env (DelinearizeIndex linearIndex basis) =
     (case (evalVal env linearIndex, evalVals env basis) of
        (Some l, Some bs) \<Rightarrow> delinearizeIndex l bs
      | _ \<Rightarrow> None)"
| "evalOp env (AffineApplyOp m operands) =
     (case (evalVals env operands, getResults m) of
        (Some vs, [e]) \<Rightarrow>
          (if length vs = unat (getNumDims m) + unat (getNumSymbols m)
           then map_option (\<lambda>r. [r])
                  (evalAffine (take (unat (getNumDims m)) vs) (drop (unat (getNumDims m)) vs) e)
           else None)
      | _ \<Rightarrow> None)"
| "evalOp env (AddIOp a b) =
     (case (evalVal env a, evalVal env b) of
        (Some x, Some y) \<Rightarrow> Some [wrap64 (x + y)]
      | _ \<Rightarrow> None)"
| "evalOp env (ConstantOp t a) = None"
| "evalOp env (ZeroConstantOp t) = None"
| "evalOp env (ToSIMTOp t v) = None"
| "evalOp env (LoadOp t v vs) = None"
| "evalOp env (InsertStridedSliceOp s d offs strides) = None"
| "evalOp env (ExtractStridedSliceOp v offs sizes strides) = None"
| "evalOp env (ExtractOp v pos) = None"
| "evalOp env (StoreOp v m vs) = None"
| "evalOp env (CreatedOp name operands types attrs) = None"
| "evalVals env [] = Some []"
| "evalVals env (v # vs) =
     (case (evalVal env v, evalVals env vs) of
        (Some x, Some xs) \<Rightarrow> Some (x # xs)
      | _ \<Rightarrow> None)"

section \<open>computeSIMDIndex\<close>

text \<open>\<open>bindSymbols(ctx, threadX, threadY, threadZ)\<close>: the symbols 0, 1 and 2.\<close>

definition threadX :: AffineExpr where "threadX = AffineSymbolExpr 0"
definition threadY :: AffineExpr where "threadY = AffineSymbolExpr 1"
definition threadZ :: AffineExpr where "threadZ = AffineSymbolExpr 2"

text \<open>
  One pass of the inner loop (source lines 44 to 60) on the pair (offset, stride).
\<close>

fun offsetStep :: "State \<Rightarrow> LayoutDimension \<times> int \<Rightarrow> AffineExpr \<times> AffineExpr
    \<Rightarrow> AffineExpr \<times> AffineExpr" where
  "offsetStep state (label, shape) (offset, stride) =
     (let position = getPosition state label;
          offset' = (case label of
              LANEX \<Rightarrow> AffineAdd offset (AffineMul stride threadX)
            | LANEY \<Rightarrow> AffineAdd offset (AffineMul stride threadY)
            | LANEZ \<Rightarrow> AffineAdd offset (AffineMul stride threadZ)
            | _ \<Rightarrow> AffineAdd offset (AffineMul stride (getAffineConstantExpr position)))
      in (offset', AffineMul stride (getAffineConstantExpr shape)))"

definition dimOffset :: "State \<Rightarrow> PerDimLayoutAttr \<Rightarrow> AffineExpr" where
  "dimOffset state dimLayout =
     fst (fold (offsetStep state) (rev (zip (getLabels dimLayout) (getShapes dimLayout)))
            (getAffineConstantExpr 0, getAffineConstantExpr 1))"

text \<open>
  One pass of the outer loop (source lines 39 to 81): the operations it creates, in
  order, and the index it appends to \<open>simdIndex\<close>.
\<close>

definition laneGridOps :: "LayoutAttr \<Rightarrow> Op list" where
  "laneGridOps layout =
     (case getLaneGrid layout of (laneDimX, laneDimY, laneDimZ) \<Rightarrow>
        [ConstantIndexOp laneDimZ, ConstantIndexOp laneDimY, ConstantIndexOp laneDimX])"

definition dimIndex :: "State \<Rightarrow> LayoutAttr \<Rightarrow> Val \<Rightarrow> PerDimLayoutAttr \<Rightarrow> Val \<times> Op list" where
  "dimIndex state layout laneId dimLayout =
     (let offset = dimOffset state dimLayout;
          gridOps = laneGridOps layout;
          laneGrid = map (\<lambda>c. Result c 0) gridOps;
          maybeReversedLaneGridVals = DelinearizeIndex laneId laneGrid;
          laneGridVals = [Result maybeReversedLaneGridVals 2,
                          Result maybeReversedLaneGridVals 1,
                          Result maybeReversedLaneGridVals 0];
          indexMap = AffineMap_get 0 3 offset;
          index = AffineApplyOp indexMap laneGridVals
      in (Result index 0, gridOps @ [maybeReversedLaneGridVals, index]))"

fun computeSIMDIndexLoop :: "State \<Rightarrow> LayoutAttr \<Rightarrow> Val \<Rightarrow> PerDimLayoutAttr list
    \<Rightarrow> Val list \<times> Rewriter \<Rightarrow> Val list \<times> Rewriter" where
  "computeSIMDIndexLoop state layout laneId [] (simdIndex, rewriter) = (simdIndex, rewriter)"
| "computeSIMDIndexLoop state layout laneId (dimLayout # rest) (simdIndex, rewriter) =
     (case dimIndex state layout laneId dimLayout of (index, created) \<Rightarrow>
        computeSIMDIndexLoop state layout laneId rest
          (simdIndex @ [index], rewriter @ created))"

definition computeSIMDIndex :: "State \<Rightarrow> LayoutAttr \<Rightarrow> Val \<Rightarrow> Rewriter \<Rightarrow> Val list \<times> Rewriter" where
  "computeSIMDIndex state layout laneId rewriter =
     computeSIMDIndexLoop state layout laneId (getLayouts layout) ([], rewriter)"

text \<open>
  The address of one dimension as the specification words it: walk the (label, extent)
  list from the fastest- to the slowest-changing entry with a running stride, initially
  1, and offset, initially 0.
\<close>

fun specWalk :: "State \<Rightarrow> int \<times> int \<times> int \<Rightarrow> (LayoutDimension \<times> int) list \<Rightarrow> int \<times> int
    \<Rightarrow> int \<times> int" where
  "specWalk state lane [] (stride, offset) = (stride, offset)"
| "specWalk state (x, y, z) ((label, extent) # rest) (stride, offset) =
     specWalk state (x, y, z) rest
       (stride * extent,
        offset + stride * (if label = LANEX then x else if label = LANEY then y
                           else if label = LANEZ then z else getPosition state label))"

definition specAddress :: "State \<Rightarrow> int \<times> int \<times> int \<Rightarrow> PerDimLayoutAttr \<Rightarrow> int" where
  "specAddress state lane dimLayout = snd (specWalk state lane (rev (entries dimLayout)) (1, 0))"


section \<open>Outcomes of a pattern\<close>

text \<open>
  A pattern returns \<open>failure()\<close> (a recoverable no-match) or \<open>success()\<close>, or the
  process is terminated: by a failed \<open>assert\<close>, by \<open>llvm::report_fatal_error\<close>, or
  by a use of something that is not there (a method called on a null interface, an
  element read out of range). \<open>success r\<close> records what the pattern handed to the
  driver's replace or erase primitive before it returned.
\<close>

datatype Fatal =
    NullLayout
  | AssertionFailure string
  | ReportFatalError string
  | OutOfRange

datatype Rewrite = ReplaceOp "Val list" | EraseOp

datatype LogicalResult = failure | success Rewrite

type_synonym PatternResult = "Fatal + (LogicalResult \<times> Rewriter)"

text \<open>
  Modelled from the spec: the declaration of \<open>DistributionSignature\<close> is missing. The
  layout signature is a function from a vector-typed value to its assigned layout, or
  unassigned (\<open>None\<close>). \<open>signature[v]\<close> of an unassigned value is a null interface.
\<close>

type_synonym DistributionSignature = "Val \<Rightarrow> VectorLayoutInterface option"

fun getType :: "Val \<Rightarrow> Type"
  and getResultTypes :: "Op \<Rightarrow> Type list" where
  "getType (External n t) = t"
| "getType (Result op n) =
     (if n < length (getResultTypes op) then getResultTypes op ! n else NoneType)"
| "getResultTypes (ConstantIndexOp c) = [IndexType]"
| "getResultTypes (DelinearizeIndex l basis) = replicate (max 1 (length basis)) IndexType"
| "getResultTypes (AffineApplyOp m vs) = [IndexType]"
| "getResultTypes (AddIOp a b) = [getType a]"
| "getResultTypes (ConstantOp t a) = [t]"
| "getResultTypes (ZeroConstantOp t) = [t]"
| "getResultTypes (ToSIMTOp t v) = [t]"
| "getResultTypes (LoadOp t v vs) = [t]"
| "getResultTypes (InsertStridedSliceOp s d offs strides) = [getType d]"
| "getResultTypes (ExtractStridedSliceOp v offs sizes strides) =
     [case getType v of
        VectorType shape et \<Rightarrow> VectorType (sizes @ drop (length sizes) shape) et
      | _ \<Rightarrow> NoneType]"
| "getResultTypes (ExtractOp v pos) =
     [case getType v of
        VectorType shape et \<Rightarrow>
          (if length pos < length shape then VectorType (drop (length pos) shape) et else et)
      | _ \<Rightarrow> NoneType]"
| "getResultTypes (StoreOp v m vs) = []"
| "getResultTypes (CreatedOp name operands types attrs) = types"

definition getResultsOf :: "Op \<Rightarrow> Val list" where
  "getResultsOf op = map (Result op) [0..<length (getResultTypes op)]"

text \<open>
  Modelled from the spec: the driver's \<open>getDistributed\<close> is missing. It fetches the
  already-distributed form of a value given a layout: a value of the layout's distributed
  shape and the value's element type.
\<close>

definition getDistributed :: "Rewriter \<Rightarrow> Val \<Rightarrow> VectorLayoutInterface \<Rightarrow> Val \<times> Rewriter" where
  "getDistributed rewriter v layout =
     (let toSIMT = ToSIMTOp (VectorType (getDistributedShape layout)
                      (getElementType (getType v))) v
      in (Result toSIMT 0, rewriter @ [toSIMT]))"

section \<open>DistributeConstants\<close>

record ArithConstantOp =
  constantResult :: Val
  constantValue :: Attribute

definition DistributeConstants_matchAndRewrite ::
    "ArithConstantOp \<Rightarrow> DistributionSignature \<Rightarrow> Rewriter \<Rightarrow> PatternResult" where
  "DistributeConstants_matchAndRewrite constantOp signature rewriter =
     (let constant = constantResult constantOp in
      if \<not> isVectorType (getType constant) then Inr (failure, rewriter)
      else case constantValue constantOp of
        SplatElementsAttr t splatValue \<Rightarrow>
          (case signature constant of
             None \<Rightarrow> Inl NullLayout
           | Some layout \<Rightarrow>
               (let elementType = getElementType (getType constant);
                    vectorType = VectorType (getDistributedShape layout) elementType;
                    distributedOp = ConstantOp vectorType
                                      (SplatElementsAttr vectorType splatValue)
                in Inr (success (ReplaceOp [Result distributedOp 0]),
                        rewriter @ [distributedOp])))
      | _ \<Rightarrow> Inr (failure, rewriter))"

section \<open>DistributeElementwise\<close>

record Operation =
  opName :: string
  opOperands :: "Val list"
  opResults :: "Val list"
  opAttrs :: "(string \<times> Attribute) list"

definition getAttr :: "(string \<times> Attribute) list \<Rightarrow> string \<Rightarrow> Attribute option" where
  "getAttr attrs name = map_of attrs name"

definition fastmathAttrName :: string where
  "fastmathAttrName = ''fastmath''"

text \<open>The first loop (source lines 124 to 130).\<close>

fun distributeOperands :: "DistributionSignature \<Rightarrow> Val list \<Rightarrow> Val list \<times> Rewriter
    \<Rightarrow> Fatal + (Val list \<times> Rewriter)" where
  "distributeOperands signature [] (operands, rewriter) = Inr (operands, rewriter)"
| "distributeOperands signature (operand # rest) (operands, rewriter) =
     (if isVectorType (getType operand)
      then (case signature operand of
              None \<Rightarrow> Inl NullLayout
            | Some layout \<Rightarrow>
                (case getDistributed rewriter operand layout of (distributed, rewriter') \<Rightarrow>
                   distributeOperands signature rest (operands @ [distributed], rewriter')))
      else distributeOperands signature rest (operands @ [operand], rewriter))"

text \<open>The second loop (source lines 134 to 144).\<close>

fun distributeResultTypes :: "DistributionSignature \<Rightarrow> Val list \<Rightarrow> Type list
    \<Rightarrow> Fatal + Type list" where
  "distributeResultTypes signature [] resultTypes = Inr resultTypes"
| "distributeResultTypes signature (result # rest) resultTypes =
     (if isVectorType (getType result)
      then (case signature result of
              None \<Rightarrow> Inl NullLayout
            | Some resLayout \<Rightarrow>
                distributeResultTypes signature rest
                  (resultTypes @ [VectorType (getDistributedShape resLayout)
                                    (getElementType (getType result))]))
      else distributeResultTypes signature rest (resultTypes @ [getType result]))"

text \<open>
  Source lines 147 to 154: the operation is created from name, operands and result types
  alone, then the fastmath attribute is set on it when the original has one.
\<close>

definition createDistributedOp :: "Operation \<Rightarrow> Val list \<Rightarrow> Type list \<Rightarrow> Op" where
  "createDistributedOp op operands resultTypes =
     (case getAttr (opAttrs op) fastmathAttrName of
        Some attr \<Rightarrow> CreatedOp (opName op) operands resultTypes [(fastmathAttrName, attr)]
      | None \<Rightarrow> CreatedOp (opName op) operands resultTypes [])"

definition DistributeElementwise_matchAndRewrite ::
    "Operation \<Rightarrow> DistributionSignature \<Rightarrow> Rewriter \<Rightarrow> PatternResult" where
  "DistributeElementwise_matchAndRewrite op signature rewriter =
     (case distributeOperands signature (opOperands op) ([], rewriter) of
        Inl f \<Rightarrow> Inl f
      | Inr (operands, rewriter') \<Rightarrow>
          (case distributeResultTypes signature (opResults op) [] of
             Inl f \<Rightarrow> Inl f
           | Inr resultTypes \<Rightarrow>
               (let distributedOp = createDistributedOp op operands resultTypes
                in Inr (success (ReplaceOp (getResultsOf distributedOp)),
                        rewriter' @ [distributedOp]))))"

fun createdAttrs :: "Op \<Rightarrow> (string \<times> Attribute) list" where
  "createdAttrs (CreatedOp name operands types attrs) = attrs"
| "createdAttrs op = []"

section \<open>getReducedPermutation\<close>

text \<open>
  MLIR's \<open>AffineMap::isProjectedPermutation()\<close>, with its default argument: no symbols,
  no more results than inputs, every result a dimension, no dimension twice.
\<close>

fun isProjectedPermutationLoop :: "AffineExpr list \<Rightarrow> 32 word list \<Rightarrow> bool" where
  "isProjectedPermutationLoop [] seen = True"
| "isProjectedPermutationLoop (AffineDimExpr p # rest) seen =
     (if p \<in> set seen then False else isProjectedPermutationLoop rest (p # seen))"
| "isProjectedPermutationLoop (e # rest) seen = False"

definition isProjectedPermutation :: "AffineMap \<Rightarrow> bool" where
  "isProjectedPermutation m =
     (if getNumSymbols m > 0 then False
      else if getNumResults m > getNumDims m + getNumSymbols m then False
      else isProjectedPermutationLoop (getResults m) [])"

text \<open>
  \<open>assertions\<close> tells whether the \<open>assert\<close>s are compiled in. Without them the
  subtraction on \<open>unsigned\<close> wraps around; \<open>push_back\<close> widens the position to
  \<open>int64_t\<close>.
\<close>

fun getReducedPermutationLoop :: "bool \<Rightarrow> 32 word \<Rightarrow> AffineExpr list \<Rightarrow> int list
    \<Rightarrow> Fatal + int list" where
  "getReducedPermutationLoop assertions leadingUnitDims [] permutation = Inr permutation"
| "getReducedPermutationLoop assertions leadingUnitDims (AffineDimExpr pos # rest) permutation =
     (if assertions \<and> \<not> (pos \<ge> leadingUnitDims)
      then Inl (AssertionFailure ''invalid permutation map'')
      else getReducedPermutationLoop assertions leadingUnitDims rest
             (permutation @ [uint (pos - leadingUnitDims)]))"
| "getReducedPermutationLoop assertions leadingUnitDims (dim # rest) permutation =
     Inl (ReportFatalError ''permutation map is not a projected permutation.'')"

definition getReducedPermutation :: "bool \<Rightarrow> AffineMap \<Rightarrow> Fatal + int list" where
  "getReducedPermutation assertions permutationMap =
     (if assertions \<and> \<not> isProjectedPermutation permutationMap
      then Inl (AssertionFailure ''permutation map should be a projected permutation.'')
      else getReducedPermutationLoop assertions
             (getNumDims permutationMap - getNumResults permutationMap)
             (getResults permutationMap) [])"

section \<open>Transfer patterns\<close>

text \<open>
  A \<open>vector.transfer_read\<close> or \<open>vector.transfer_write\<close>. \<open>getVector\<close> is the
  result of a read and the stored vector of a write. The mask operand is optional;
  \<open>getInBounds\<close> tells, per vector dimension, whether the access is known to stay
  inside the source.
\<close>

record TransferOp =
  getSource :: Val
  getIndices :: "Val list"
  getPermutationMap :: AffineMap
  getMask :: "Val option"
  getInBounds :: "bool list"
  getVector :: Val

text \<open>
  Modelled from the spec: \<open>LayoutIterator\<close> is missing. Built from a layout and a
  per-label step override, it visits the iteration states of the layout in a fixed order;
  \<open>iterate\<close> gives the states visited. \<open>assertionsEnabled\<close> as above.
\<close>

record Environment =
  assertionsEnabled :: bool
  iterate :: "LayoutAttr \<Rightarrow> (LayoutDimension \<Rightarrow> int option) \<Rightarrow> State list"

text \<open>The conversion from \<open>int64_t\<close> to \<open>int\<close>.\<close>

definition toInt :: "int \<Rightarrow> int" where
  "toInt w = sint (word_of_int w :: 32 word)"

definition getLoadStoreWidth :: "LayoutAttr \<Rightarrow> Fatal + int" where
  "getLoadStoreWidth layout =
     (case rev (getLayouts layout) of
        [] \<Rightarrow> Inl OutOfRange
      | fastestChanging # others \<Rightarrow>
          (case getShape fastestChanging VECTORX of
             Some width \<Rightarrow> Inr (toInt width)
           | None \<Rightarrow> Inr 1))"

definition getMemoryIndices :: "Val \<Rightarrow> State \<Rightarrow> LayoutAttr \<Rightarrow> Val list \<Rightarrow> Rewriter
    \<Rightarrow> Fatal + (Val list \<times> Rewriter)" where
  "getMemoryIndices laneId state memoryLayout indices rewriter =
     (case computeSIMDIndex state memoryLayout laneId rewriter of (simdIndices, rewriter') \<Rightarrow>
        (let leadingProjectedDims = int (length indices) - int (length simdIndices) in
         if leadingProjectedDims < 0 then Inl OutOfRange
         else (let adds = map (\<lambda>(memoryIndex, simdIndex). AddIOp memoryIndex simdIndex)
                            (zip (drop (nat leadingProjectedDims) indices) simdIndices)
               in Inr (take (nat leadingProjectedDims) indices @ map (\<lambda>a. Result a 0) adds,
                       rewriter' @ adds))))"

type_synonym AccessUnit =
  "TransferOp \<Rightarrow> Val list \<Rightarrow> int list \<Rightarrow> Val \<Rightarrow> LayoutAttr \<Rightarrow> LayoutAttr \<Rightarrow> Rewriter
    \<Rightarrow> Fatal + (Val \<times> Rewriter)"

definition TransferRead_accessUnit :: AccessUnit where
  "TransferRead_accessUnit readOp memoryIndices accIndices accumulator vectorLayout
       memoryLayout rewriter =
     (case getLoadStoreWidth memoryLayout of
        Inl f \<Rightarrow> Inl f
      | Inr width \<Rightarrow>
          (let unitType = VectorType [width] (getElementType (getType accumulator));
               load = LoadOp unitType (getSource readOp) memoryIndices;
               insert = InsertStridedSliceOp (Result load 0) accumulator accIndices [1]
           in Inr (Result insert 0, rewriter @ [load, insert])))"

definition TransferWrite_accessUnit :: AccessUnit where
  "TransferWrite_accessUnit writeOp memoryIndices accIndices accumulator vectorLayout
       memoryLayout rewriter =
     (case getLoadStoreWidth memoryLayout of
        Inl f \<Rightarrow> Inl f
      | Inr width \<Rightarrow>
          (if length accIndices = 0 then Inl OutOfRange
           else (let strides = replicate (length accIndices) 1;
                     shapes = (replicate (length accIndices) 1)[length accIndices - 1 := width]
                 in case getDistributed rewriter accumulator (Layout vectorLayout) of
                      (distributed, rewriter') \<Rightarrow>
                        (let slice = ExtractStridedSliceOp distributed accIndices shapes strides;
                             extract = ExtractOp (Result slice 0)
                                         (replicate (length accIndices - 1) 0);
                             store = StoreOp (Result extract 0) (getSource writeOp)
                                       memoryIndices
                         in Inr (accumulator, rewriter' @ [slice, extract, store])))))"

fun applyStates :: "(State \<Rightarrow> Val \<times> Rewriter \<Rightarrow> Fatal + (Val \<times> Rewriter)) \<Rightarrow> State list
    \<Rightarrow> Val \<times> Rewriter \<Rightarrow> Fatal + (Val \<times> Rewriter)" where
  "applyStates callback [] acc = Inr acc"
| "applyStates callback (state # rest) acc =
     (case callback state acc of
        Inl f \<Rightarrow> Inl f
      | Inr acc' \<Rightarrow> applyStates callback rest acc')"

definition accessMemory :: "Environment \<Rightarrow> Val \<Rightarrow> AccessUnit \<Rightarrow> TransferOp \<Rightarrow> Val
    \<Rightarrow> LayoutAttr \<Rightarrow> Rewriter \<Rightarrow> Fatal + (Val \<times> Rewriter)" where
  "accessMemory env laneId accessUnit xferOp accumulator vectorLayout rewriter =
     (case getReducedPermutation (assertionsEnabled env) (getPermutationMap xferOp) of
        Inl f \<Rightarrow> Inl f
      | Inr permutation \<Rightarrow>
          (case permute vectorLayout permutation of
             None \<Rightarrow> Inl (AssertionFailure ''invalid permutation'')
           | Some memoryLayout \<Rightarrow>
               (case getLoadStoreWidth memoryLayout of
                  Inl f \<Rightarrow> Inl f
                | Inr loadWidth \<Rightarrow>
                    applyStates
                      (\<lambda>state (acc, rw).
                         case getMemoryIndices laneId state memoryLayout (getIndices xferOp) rw of
                           Inl f \<Rightarrow> Inl f
                         | Inr (memoryIndices, rw') \<Rightarrow>
                             accessUnit xferOp memoryIndices (computeSIMTIndex state) acc
                               vectorLayout memoryLayout rw')
                      (iterate env vectorLayout [VECTORX \<mapsto> loadWidth])
                      (accumulator, rewriter))))"

text \<open>
  \<open>dyn_cast<LayoutAttr>\<close> of a layout of another kind is null, and the pattern returns
  \<open>failure()\<close>. \<open>dyn_cast\<close> of a null interface, which \<open>signature[v]\<close> is for an
  unassigned value, is not defined: LLVM's \<open>dyn_cast\<close> asserts that its argument is
  present, and without assertions it reads the type of a null attribute. Neither pattern
  reads the mask or the in-bounds flags (source lines 281 and 325: a TODO).
\<close>

definition DistributeTransferRead_matchAndRewrite ::
    "Environment \<Rightarrow> Val \<Rightarrow> TransferOp \<Rightarrow> DistributionSignature \<Rightarrow> Rewriter \<Rightarrow> PatternResult" where
  "DistributeTransferRead_matchAndRewrite env laneId readOp signature rewriter =
     (case signature (getVector readOp) of
        None \<Rightarrow> Inl (if assertionsEnabled env
                       then AssertionFailure ''dyn_cast on a non-existent value''
                       else NullLayout)
      | Some (OtherLayout shape) \<Rightarrow> Inr (failure, rewriter)
      | Some (Layout vectorLayout) \<Rightarrow>
          (let elementType = getElementType (getType (getSource readOp));
               vectorType = VectorType (LayoutAttr_getDistributedShape vectorLayout) elementType;
               zero = ZeroConstantOp vectorType;
               acc = Result zero 0
           in case accessMemory env laneId TransferRead_accessUnit readOp acc vectorLayout
                     (rewriter @ [zero]) of
                Inl f \<Rightarrow> Inl f
              | Inr (readVec, rewriter') \<Rightarrow> Inr (success (ReplaceOp [readVec]), rewriter')))"

definition DistributeTransferWrite_matchAndRewrite ::
    "Environment \<Rightarrow> Val \<Rightarrow> TransferOp \<Rightarrow> DistributionSignature \<Rightarrow> Rewriter \<Rightarrow> PatternResult" where
  "DistributeTransferWrite_matchAndRewrite env laneId writeOp signature rewriter =
     (case signature (getVector writeOp) of
        None \<Rightarrow> Inl (if assertionsEnabled env
                       then AssertionFailure ''dyn_cast on a non-existent value''
                       else NullLayout)
      | Some (OtherLayout shape) \<Rightarrow> Inr (failure, rewriter)
      | Some (Layout vectorLayout) \<Rightarrow>
          (case accessMemory env laneId TransferWrite_accessUnit writeOp (getVector writeOp)
                  vectorLayout rewriter of
             Inl f \<Rightarrow> Inl f
           | Inr (acc, rewriter') \<Rightarrow> Inr (success EraseOp, rewriter')))"

text \<open>
  A transfer needs partial or masked access when it carries a mask or when some dimension
  is not known to be in bounds.
\<close>

definition requiresMasking :: "TransferOp \<Rightarrow> bool" where
  "requiresMasking xferOp = (\<not> (getMask xferOp = None \<and> list_all (\<lambda>b. b) (getInBounds xferOp)))"

section \<open>Reading an outcome\<close>

text \<open>
  \<open>succeeded\<close> and \<open>failed\<close> of a pattern's outcome; a terminated process has
  neither.
\<close>

fun succeeded :: "PatternResult \<Rightarrow> bool" where
  "succeeded (Inr (success r, rw)) = True"
| "succeeded other = False"

fun failed :: "PatternResult \<Rightarrow> bool" where
  "failed (Inr (failure, rw)) = True"
| "failed other = False"

section \<open>The permutation reduction in the words of the specification\<close>

text \<open>
  The domain positions the results of a map refer to, in result order; the number of
  leading domain dimensions no result refers to; and the permutation the specification
  describes: each result's position minus that number. \<open>projectedDimsLead\<close> says
  that the projected-out dimensions are a leading block, \<open>dimsInDomain\<close> that every
  result refers to a dimension of the domain.
\<close>

fun isDimExpr :: "AffineExpr \<Rightarrow> bool" where
  "isDimExpr (AffineDimExpr p) = True"
| "isDimExpr e = False"

fun dimPosition :: "AffineExpr \<Rightarrow> 32 word option" where
  "dimPosition (AffineDimExpr p) = Some p"
| "dimPosition e = None"

definition resultPositions :: "AffineMap \<Rightarrow> nat list" where
  "resultPositions m = map unat (List.map_filter dimPosition (getResults m))"

definition leadingProjectedDims :: "AffineMap \<Rightarrow> nat" where
  "leadingProjectedDims m =
     length (takeWhile (\<lambda>d. d \<notin> set (resultPositions m)) [0..<unat (getNumDims m)])"

definition projectedDimsLead :: "AffineMap \<Rightarrow> bool" where
  "projectedDimsLead m =
     list_all (\<lambda>d. d \<in> set (resultPositions m) \<or> d < leadingProjectedDims m)
       [0..<unat (getNumDims m)]"

definition dimsInDomain :: "AffineMap \<Rightarrow> bool" where
  "dimsInDomain m = list_all (\<lambda>p. p < unat (getNumDims m)) (resultPositions m)"

definition specReducedPermutation :: "AffineMap \<Rightarrow> int list" where
  "specReducedPermutation m =
     map (\<lambda>p. int p - int (leadingProjectedDims m)) (resultPositions m)"

section \<open>Lane coordinates, layouts and iteration states\<close>








section \<open>Concrete inputs\<close>

text \<open>
  The layout of the specification's example: lane grid (X=2, Y=1, Z=1) and one dimension
  \<open>[(LANEX, 2), (VECTORX, 4)]\<close>; a layout of two dimensions; a layout whose one
  dimension has 2^65 elements; states; lane ids.
\<close>

definition exLayout :: LayoutAttr where
  "exLayout = \<lparr>getLayouts = [\<lparr>entries = [(LANEX, 2), (VECTORX, 4)]\<rparr>], getLaneGrid = (2, 1, 1)\<rparr>"


definition exLane :: Val where "exLane = External 0 IndexType"

definition exState :: State where
  "exState = \<lparr>getPosition = (\<lambda>l. 0), computeSIMTIndex = [0]\<rparr>"


definition exEnv :: "nat \<Rightarrow> int" where "exEnv = (\<lambda>n. 1)"


definition wideLayout :: LayoutAttr where
  "wideLayout = \<lparr>getLayouts = [\<lparr>entries = [(BATCHX, 2), (BATCHY, 4294967296),
                                               (VECTORX, 4294967296)]\<rparr>],
                 getLaneGrid = (1, 1, 1)\<rparr>"

definition exStateBatch1 :: State where
  "exStateBatch1 = \<lparr>getPosition = (\<lambda>l. if l = BATCHX then 1 else 0),
                    computeSIMTIndex = [1, 0, 0]\<rparr>"

definition noLayouts :: DistributionSignature where
  "noLayouts = (\<lambda>v. None)"

text \<open>
  A splat constant and a dense constant that is no splat; an \<open>arith.addf\<close> with a
  fastmath attribute and one other attribute, and what the elementwise pattern creates for
  it.
\<close>

definition exConstant :: ArithConstantOp where
  "exConstant = \<lparr>constantResult = External 7 (VectorType [8] (ElementType ''f32'')),
                 constantValue = SplatElementsAttr (VectorType [8] (ElementType ''f32''))
                                   (ScalarAttr ''1.0'')\<rparr>"

definition exDenseConstant :: ArithConstantOp where
  "exDenseConstant = \<lparr>constantResult = External 8 (VectorType [2] (ElementType ''f32'')),
                      constantValue = DenseElementsAttr (VectorType [2] (ElementType ''f32''))
                                        [ScalarAttr ''1.0'', ScalarAttr ''2.0'']\<rparr>"

definition exConstantSignature :: DistributionSignature where
  "exConstantSignature = [constantResult exConstant \<mapsto> Layout exLayout]"

definition exAddF :: Operation where
  "exAddF = \<lparr>opName = ''arith.addf'',
             opOperands = [External 1 (VectorType [8] (ElementType ''f32'')),
                           External 2 (VectorType [8] (ElementType ''f32''))],
             opResults = [External 3 (VectorType [8] (ElementType ''f32''))],
             opAttrs = [(''fastmath'', FastMathFlagsAttr 1), (''iree.tag'', ScalarAttr ''x'')]\<rparr>"

definition exAddFSignature :: DistributionSignature where
  "exAddFSignature = [External 1 (VectorType [8] (ElementType ''f32'')) \<mapsto> Layout exLayout,
                      External 2 (VectorType [8] (ElementType ''f32'')) \<mapsto> Layout exLayout,
                      External 3 (VectorType [8] (ElementType ''f32'')) \<mapsto> Layout exLayout]"

definition exOperandsOnlySignature :: DistributionSignature where
  "exOperandsOnlySignature = [External 1 (VectorType [8] (ElementType ''f32'')) \<mapsto> Layout exLayout,
                      External 2 (VectorType [8] (ElementType ''f32'')) \<mapsto> Layout exLayout]"

definition exAddFDistributed :: Op where
  "exAddFDistributed =
     CreatedOp ''arith.addf''
       [Result (ToSIMTOp (VectorType [4] (ElementType ''f32''))
                  (External 1 (VectorType [8] (ElementType ''f32'')))) 0,
        Result (ToSIMTOp (VectorType [4] (ElementType ''f32''))
                  (External 2 (VectorType [8] (ElementType ''f32'')))) 0]
       [VectorType [4] (ElementType ''f32'')]
       [(''fastmath'', FastMathFlagsAttr 1)]"

definition exAddFCreated :: "Op list" where
  "exAddFCreated =
     [ToSIMTOp (VectorType [4] (ElementType ''f32''))
        (External 1 (VectorType [8] (ElementType ''f32''))),
      ToSIMTOp (VectorType [4] (ElementType ''f32''))
        (External 2 (VectorType [8] (ElementType ''f32'')))]"

text \<open>
  Permutation maps: the swap of two dimensions; a map with a constant result (a
  broadcast); a projected permutation whose projected-out dimension is not leading;
  the identity on one dimension. A transfer that carries a mask and is not known to be in
  bounds, and one with the broadcast map; an iterator that visits one state.
\<close>

definition swapMap :: AffineMap where
  "swapMap = \<lparr>getNumDims = 2, getNumSymbols = 0,
              getResults = [AffineDimExpr 1, AffineDimExpr 0]\<rparr>"

definition broadcastMap :: AffineMap where
  "broadcastMap = \<lparr>getNumDims = 2, getNumSymbols = 0,
              getResults = [AffineDimExpr 1, AffineConstantExpr 0]\<rparr>"

definition skipMap :: AffineMap where
  "skipMap = \<lparr>getNumDims = 3, getNumSymbols = 0,
              getResults = [AffineDimExpr 0, AffineDimExpr 2]\<rparr>"

definition identityMap1 :: AffineMap where
  "identityMap1 = \<lparr>getNumDims = 1, getNumSymbols = 0, getResults = [AffineDimExpr 0]\<rparr>"

definition exMaskedTransfer :: TransferOp where
  "exMaskedTransfer =
     \<lparr>getSource = External 20 (MemRefType [8] (ElementType ''f32'')),
      getIndices = [External 21 IndexType],
      getPermutationMap = identityMap1,
      getMask = Some (External 22 (VectorType [8] (ElementType ''i1''))),
      getInBounds = [False],
      getVector = External 23 (VectorType [8] (ElementType ''f32''))\<rparr>"

definition exBroadcastTransfer :: TransferOp where
  "exBroadcastTransfer = exMaskedTransfer\<lparr>getPermutationMap := broadcastMap, getMask := None,
     getInBounds := [True]\<rparr>"

definition exTransferSignature :: DistributionSignature where
  "exTransferSignature = [External 23 (VectorType [8] (ElementType ''f32'')) \<mapsto> Layout exLayout]"

definition exIterate :: "LayoutAttr \<Rightarrow> (LayoutDimension \<Rightarrow> int option) \<Rightarrow> State list" where
  "exIterate = (\<lambda>layout steps. [exState])"

definition exEnvironment :: Environment where
  "exEnvironment = \<lparr>assertionsEnabled = True, iterate = exIterate\<rparr>"

section \<open>Properties of computeSIMDIndex\<close>

lemma word_of_int_wrap64:
  "(word_of_int (wrap64 k) :: 64 word) = word_of_int k"
  by (simp add: wrap64_def)

lemma wrap64_eq_iff:
  "wrap64 a = wrap64 b \<longleftrightarrow> (word_of_int a :: 64 word) = word_of_int b"
proof
  assume "wrap64 a = wrap64 b"
  then have "(word_of_int (wrap64 a) :: 64 word) = word_of_int (wrap64 b)" by simp
  then show "(word_of_int a :: 64 word) = word_of_int b" by (simp only: word_of_int_wrap64)
next
  assume "(word_of_int a :: 64 word) = word_of_int b"
  then show "wrap64 a = wrap64 b" by (simp add: wrap64_def)
qed

lemma wrap64_step:
  "wrap64 (wrap64 a + b) = wrap64 (a + b)"
  "wrap64 (a + wrap64 b) = wrap64 (a + b)"
  "wrap64 (wrap64 a * b) = wrap64 (a * b)"
  "wrap64 (a * wrap64 b) = wrap64 (a * b)"
  by (simp_all add: wrap64_eq_iff word_of_int_wrap64)

lemma wrap64_self:
  "- (2 ^ 63) \<le> k \<Longrightarrow> k < 2 ^ 63 \<Longrightarrow> wrap64 k = k"
  by (simp add: wrap64_def signed_of_int signed_take_bit_int_eq_self)

lemma evalAffine_getAffineConstantExpr:
  "evalAffine ds ss (getAffineConstantExpr c) = Some (wrap64 c)"
  by (simp add: getAffineConstantExpr_def wrap64_def)

lemma fold_offsetStep_eval:
  "evalAffine [] [x, y, z] off = Some (wrap64 ov) \<Longrightarrow>
   evalAffine [] [x, y, z] str = Some (wrap64 sv) \<Longrightarrow>
   evalAffine [] [x, y, z] (fst (fold (offsetStep st) es (off, str)))
     = Some (wrap64 (snd (specWalk st (x, y, z) es (sv, ov)))) \<and>
   evalAffine [] [x, y, z] (snd (fold (offsetStep st) es (off, str)))
     = Some (wrap64 (fst (specWalk st (x, y, z) es (sv, ov))))"
proof (induction es arbitrary: off str ov sv)
  case Nil
  then show ?case by simp
next
  case (Cons e es)
  obtain l sh where e: "e = (l, sh)" by (cases e)
  let ?off' = "fst (offsetStep st (l, sh) (off, str))"
  let ?str' = "snd (offsetStep st (l, sh) (off, str))"
  have o: "evalAffine [] [x, y, z] ?off' = Some (wrap64 (ov + sv * (if l = LANEX then x
             else if l = LANEY then y else if l = LANEZ then z else getPosition st l)))"
    using Cons.prems
    by (cases l)
       (simp_all add: threadX_def threadY_def threadZ_def Let_def
          evalAffine_getAffineConstantExpr wrap64_step)
  have s: "evalAffine [] [x, y, z] ?str' = Some (wrap64 (sv * sh))"
    using Cons.prems by (simp add: Let_def evalAffine_getAffineConstantExpr wrap64_step)
  have "fold (offsetStep st) (e # es) (off, str) = fold (offsetStep st) es (?off', ?str')"
    by (simp add: e)
  then show ?case using Cons.IH [OF o s] by (simp add: e)
qed

lemma dimOffset_eval:
  "evalAffine [] [x, y, z] (dimOffset st d) = Some (wrap64 (specAddress st (x, y, z) d))"
  using fold_offsetStep_eval [of x y z "getAffineConstantExpr 0" 0 "getAffineConstantExpr 1" 1
      st "rev (entries d)"]
  by (simp add: dimOffset_def specAddress_def getLabels_def getShapes_def zip_map_fst_snd
      evalAffine_getAffineConstantExpr)

lemma delinearizeIndex3:
  "delinearizeIndex l [gz, gy, gx] =
     (if gy * gx \<le> 0 \<or> gx \<le> 0 then None
      else Some [l div (gy * gx), (l mod (gy * gx)) div gx, (l mod (gy * gx)) mod gx])"
  by (simp add: delinearizeIndex_def upt_rec)


lemma dimIndex_eval:
  assumes "evalVal env laneId = Some l"
    and "getLaneGrid layout = (gx, gy, gz)"
    and "delinearizeIndex l [gz, gy, gx] = Some [z, y, x]"
  shows "evalVal env (fst (dimIndex st layout laneId d))
           = Some (wrap64 (specAddress st (x, y, z) d))"
  using assms dimOffset_eval [of x y z st d]
  by (simp add: dimIndex_def Let_def laneGridOps_def AffineMap_get_def)

lemma computeSIMDIndexLoop_eq:
  "computeSIMDIndexLoop st layout laneId ds (acc, rw) =
     (acc @ map (\<lambda>d. fst (dimIndex st layout laneId d)) ds,
      rw @ concat (map (\<lambda>d. snd (dimIndex st layout laneId d)) ds))"
  by (induction ds arbitrary: acc rw) (simp_all add: case_prod_beta)

lemma computeSIMDIndex_eq:
  "computeSIMDIndex st layout laneId rw =
     (map (\<lambda>d. fst (dimIndex st layout laneId d)) (getLayouts layout),
      rw @ concat (map (\<lambda>d. snd (dimIndex st layout laneId d)) (getLayouts layout)))"
  by (simp add: computeSIMDIndex_def computeSIMDIndexLoop_eq)

text \<open>
  C2, as the code has it. For every vector dimension of a layout, the address
  \<open>computeSIMDIndex\<close> computes from an iteration state, the layout and a lane identity is
  the mixed-radix sum of the specification, taken in the 64-bit arithmetic of the index
  type: the walk over the dimension's (label, extent) list from the fastest- to the
  slowest-changing entry, stride starting at 1 and offset at 0, where a lane label
  contributes stride times the lane coordinate and any other label stride times the
  state's position, and the stride is then multiplied by the extent. It is the sum itself
  whenever the sum lies in the 64-bit range. The lane coordinates \<open>(x, y, z)\<close> are those
  the decomposition of the lane id yields.
\<close>

theorem computeSIMDIndex_mixed_radix:
  assumes "i < length (getLayouts layout)"
    and "evalVal env laneId = Some l"
    and "getLaneGrid layout = (gx, gy, gz)"
    and "delinearizeIndex l [gz, gy, gx] = Some [z, y, x]"
  shows "length (fst (computeSIMDIndex st layout laneId rw)) = length (getLayouts layout) \<and>
         evalVal env (fst (computeSIMDIndex st layout laneId rw) ! i)
           = Some (wrap64 (specAddress st (x, y, z) (getLayouts layout ! i))) \<and>
         (- (2 ^ 63) \<le> specAddress st (x, y, z) (getLayouts layout ! i) \<and>
          specAddress st (x, y, z) (getLayouts layout ! i) < 2 ^ 63 \<longrightarrow>
            evalVal env (fst (computeSIMDIndex st layout laneId rw) ! i)
              = Some (specAddress st (x, y, z) (getLayouts layout ! i)))"
  using assms dimIndex_eval [OF assms(2,3,4)]
  by (simp add: computeSIMDIndex_eq wrap64_self)

text \<open>
  The example of the specification: lane 1 has address 4.
\<close>

theorem computeSIMDIndex_mixed_radix_witness:
  "evalVal exEnv (fst (computeSIMDIndex exState exLayout exLane []) ! 0) = Some 4
   \<and> specAddress exState (1, 0, 0) (getLayouts exLayout ! 0) = 4"
proof -
  have a: "(0::nat) < length (getLayouts exLayout)" by (simp add: exLayout_def)
  have b: "evalVal exEnv exLane = Some 1" by (simp add: exEnv_def exLane_def)
  have c: "getLaneGrid exLayout = (2, 1, 1)" by (simp add: exLayout_def)
  have d: "delinearizeIndex 1 [1, 1, 2] = Some [0, 0, 1]" by (simp add: delinearizeIndex3)
  have e: "specAddress exState (1, 0, 0) (getLayouts exLayout ! 0) = 4"
    by (simp add: specAddress_def exLayout_def exState_def)
  show ?thesis
    using computeSIMDIndex_mixed_radix [OF a b c d, where st = exState and rw = "[]"] e
    by (simp add: wrap64_def)
qed

text \<open>
  C2 as stated fails: in a dimension \<open>[(BATCHX, 2), (BATCHY, 2^32), (VECTORX, 2^32)]\<close>
  the stride of \<open>BATCHX\<close> is 2^64. For the state with \<open>BATCHX\<close> at 1 the sum of the
  specification is 2^64, and the address the code computes is 0.
\<close>

theorem computeSIMDIndex_overflow_counterexample:
  "delinearizeIndex 1 [1, 1, 1] = Some [1, 0, 0]
   \<and> specAddress exStateBatch1 (0, 0, 1) (getLayouts wideLayout ! 0) = 18446744073709551616
   \<and> evalVal exEnv (fst (computeSIMDIndex exStateBatch1 wideLayout exLane []) ! 0) = Some 0"
proof -
  have a: "delinearizeIndex 1 [1, 1, 1] = Some [1, 0, 0]" by (simp add: delinearizeIndex3)
  have b: "specAddress exStateBatch1 (0, 0, 1) (getLayouts wideLayout ! 0)
             = 18446744073709551616"
    by (simp add: specAddress_def wideLayout_def exStateBatch1_def)
  have l: "evalVal exEnv exLane = Some 1" by (simp add: exEnv_def exLane_def)
  have g: "getLaneGrid wideLayout = (1, 1, 1)" by (simp add: wideLayout_def)
  have "evalVal exEnv (fst (dimIndex exStateBatch1 wideLayout exLane (getLayouts wideLayout ! 0)))
          = Some (wrap64 18446744073709551616)"
    using dimIndex_eval [OF l g a, of exStateBatch1 "getLayouts wideLayout ! 0"] b by simp
  moreover have "wrap64 18446744073709551616 = 0" by (simp add: wrap64_def)
  moreover have "fst (computeSIMDIndex exStateBatch1 wideLayout exLane []) ! 0
          = fst (dimIndex exStateBatch1 wideLayout exLane (getLayouts wideLayout ! 0))"
    by (simp add: computeSIMDIndex_eq wideLayout_def)
  ultimately show ?thesis using a b by simp
qed


















section \<open>Properties of DistributeConstants\<close>

text \<open>
  C1. For every \<open>arith.constant\<close> whose result is vector-typed, whose value is a
  splat and which has an assigned layout \<open>L\<close>, the pattern succeeds and replaces the
  value with a splat constant of shape \<open>getDistributedShape L\<close>, of the same element
  type, whose every element is the scalar of the original.
\<close>

theorem DistributeConstants_splat:
  assumes "getType (constantResult c) = VectorType shape elementType"
    and "constantValue c = SplatElementsAttr t scalar"
    and "signature (constantResult c) = Some L"
  shows "DistributeConstants_matchAndRewrite c signature rw =
           Inr (success (ReplaceOp [Result (ConstantOp (VectorType (getDistributedShape L) elementType)
                  (SplatElementsAttr (VectorType (getDistributedShape L) elementType) scalar)) 0]),
                rw @ [ConstantOp (VectorType (getDistributedShape L) elementType)
                  (SplatElementsAttr (VectorType (getDistributedShape L) elementType) scalar)])
         \<and> set (getValues (SplatElementsAttr (VectorType (getDistributedShape L) elementType) scalar))
             \<subseteq> {scalar}"
  using assms by (auto simp add: DistributeConstants_matchAndRewrite_def Let_def)

theorem DistributeConstants_splat_witness:
  "DistributeConstants_matchAndRewrite exConstant exConstantSignature [] =
     Inr (success (ReplaceOp [Result (ConstantOp (VectorType [4] (ElementType ''f32''))
            (SplatElementsAttr (VectorType [4] (ElementType ''f32'')) (ScalarAttr ''1.0''))) 0]),
          [ConstantOp (VectorType [4] (ElementType ''f32''))
            (SplatElementsAttr (VectorType [4] (ElementType ''f32'')) (ScalarAttr ''1.0''))])
   \<and> getValues (SplatElementsAttr (VectorType [4] (ElementType ''f32'')) (ScalarAttr ''1.0''))
       = replicate 4 (ScalarAttr ''1.0'')"
  using DistributeConstants_splat [of exConstant "[8]" "ElementType ''f32''"
      "VectorType [8] (ElementType ''f32'')" "ScalarAttr ''1.0''" exConstantSignature "Layout exLayout" "[]"]
  by (simp add: exConstant_def exConstantSignature_def exLayout_def
      LayoutAttr_getDistributedShape_def isLane_def)

text \<open>
  C5, as the code has it. The pattern returns a no-match exactly when the constant's
  result is not vector-typed or its value is not a splat. It does not test whether a
  layout is assigned.
\<close>

theorem DistributeConstants_failure_iff:
  "failed (DistributeConstants_matchAndRewrite c signature rw) =
     (\<not> isVectorType (getType (constantResult c)) \<or> \<not> isSplat (constantValue c))"
  by (cases "constantValue c"; cases "signature (constantResult c)")
     (simp_all add: DistributeConstants_matchAndRewrite_def Let_def)

theorem DistributeConstants_failure_iff_witness:
  "failed (DistributeConstants_matchAndRewrite exDenseConstant exConstantSignature [])
   \<and> isVectorType (getType (constantResult exDenseConstant))
   \<and> \<not> isSplat (constantValue exDenseConstant)
   \<and> \<not> failed (DistributeConstants_matchAndRewrite exConstant exConstantSignature [])"
  using DistributeConstants_failure_iff [of exDenseConstant exConstantSignature "[]"]
    DistributeConstants_failure_iff [of exConstant exConstantSignature "[]"]
  by (simp add: exDenseConstant_def exConstant_def)

text \<open>
  C5 as stated fails: a vector-typed splat constant with no assigned layout does not
  yield a no-match; the pattern calls \<open>getDistributedShape\<close> on the null layout.
\<close>

theorem DistributeConstants_unassigned_counterexample:
  "isVectorType (getType (constantResult exConstant)) \<and> isSplat (constantValue exConstant)
   \<and> noLayouts (constantResult exConstant) = None
   \<and> DistributeConstants_matchAndRewrite exConstant noLayouts [] = Inl NullLayout
   \<and> \<not> failed (DistributeConstants_matchAndRewrite exConstant noLayouts [])"
  by (simp add: DistributeConstants_matchAndRewrite_def exConstant_def noLayouts_def)

section \<open>Properties of DistributeElementwise\<close>

lemma distributeOperands_assigned:
  "\<forall>v\<in>set vs. isVectorType (getType v) \<longrightarrow> signature v \<noteq> None \<Longrightarrow>
   \<exists>r. distributeOperands signature vs acc = Inr r"
  by (induction signature vs acc rule: distributeOperands.induct)
     (auto simp add: case_prod_beta split: option.splits)

lemma distributeResultTypes_assigned:
  "\<forall>v\<in>set vs. isVectorType (getType v) \<longrightarrow> signature v \<noteq> None \<Longrightarrow>
   \<exists>r. distributeResultTypes signature vs acc = Inr r"
  by (induction signature vs acc rule: distributeResultTypes.induct)
     (auto split: option.splits)

text \<open>
  C4, as the code has it. The elementwise pattern never returns a no-match; when every
  vector operand and every vector result has an assigned layout, it succeeds.
\<close>

theorem DistributeElementwise_no_failure:
  "\<not> failed (DistributeElementwise_matchAndRewrite op signature rw) \<and>
   ((\<forall>v\<in>set (opOperands op @ opResults op). isVectorType (getType v) \<longrightarrow> signature v \<noteq> None)
      \<longrightarrow> succeeded (DistributeElementwise_matchAndRewrite op signature rw))"
proof
  show "\<not> failed (DistributeElementwise_matchAndRewrite op signature rw)"
    by (simp add: DistributeElementwise_matchAndRewrite_def Let_def split: sum.splits prod.splits)
next
  show "(\<forall>v\<in>set (opOperands op @ opResults op). isVectorType (getType v) \<longrightarrow> signature v \<noteq> None)
      \<longrightarrow> succeeded (DistributeElementwise_matchAndRewrite op signature rw)"
  proof
    assume a: "\<forall>v\<in>set (opOperands op @ opResults op). isVectorType (getType v) \<longrightarrow> signature v \<noteq> None"
    then obtain r where r: "distributeOperands signature (opOperands op) ([], rw) = Inr r"
      using distributeOperands_assigned [of "opOperands op" signature "([], rw)"] by auto
    from a obtain ts where ts: "distributeResultTypes signature (opResults op) [] = Inr ts"
      using distributeResultTypes_assigned [of "opResults op" signature "[]"] by auto
    show "succeeded (DistributeElementwise_matchAndRewrite op signature rw)"
      by (cases r) (simp add: DistributeElementwise_matchAndRewrite_def Let_def r ts)
  qed
qed

theorem DistributeElementwise_no_failure_witness:
  "succeeded (DistributeElementwise_matchAndRewrite exAddF exAddFSignature [])"
proof -
  have "\<forall>v\<in>set (opOperands exAddF @ opResults exAddF).
          isVectorType (getType v) \<longrightarrow> exAddFSignature v \<noteq> None"
    by (simp add: exAddF_def exAddFSignature_def)
  then show ?thesis
    using DistributeElementwise_no_failure [of exAddF exAddFSignature "[]"] by blast
qed

text \<open>
  C4 as stated fails: with a vector result that has no assigned layout the pattern does
  not return a no-match; it calls \<open>getDistributedShape\<close> on the null layout.
\<close>

theorem DistributeElementwise_unassigned_counterexample:
  "isVectorType (getType (External 3 (VectorType [8] (ElementType ''f32''))))
   \<and> External 3 (VectorType [8] (ElementType ''f32'')) \<in> set (opResults exAddF)
   \<and> exOperandsOnlySignature (External 3 (VectorType [8] (ElementType ''f32''))) = None
   \<and> DistributeElementwise_matchAndRewrite exAddF exOperandsOnlySignature [] = Inl NullLayout
   \<and> \<not> failed (DistributeElementwise_matchAndRewrite exAddF exOperandsOnlySignature [])"
  by (simp add: DistributeElementwise_matchAndRewrite_def exAddF_def exOperandsOnlySignature_def
      getDistributed_def Let_def)

text \<open>
  C10. For every operation the elementwise pattern rewrites, the replacement carries
  the original's fastmath attribute whenever the original has one, and no attribute of
  any other name.
\<close>

theorem DistributeElementwise_attributes:
  assumes "DistributeElementwise_matchAndRewrite op signature rw = Inr (success r, rw')"
  shows "\<exists>distributedOp created. rw' = created @ [distributedOp]
           \<and> r = ReplaceOp (getResultsOf distributedOp)
           \<and> (\<forall>a. getAttr (opAttrs op) fastmathAttrName = Some a
                 \<longrightarrow> getAttr (createdAttrs distributedOp) fastmathAttrName = Some a)
           \<and> (\<forall>name. name \<noteq> fastmathAttrName
                 \<longrightarrow> getAttr (createdAttrs distributedOp) name = None)"
  using assms
  by (auto simp add: DistributeElementwise_matchAndRewrite_def Let_def createDistributedOp_def
      getAttr_def split: sum.splits prod.splits option.splits)

theorem DistributeElementwise_attributes_witness:
  "DistributeElementwise_matchAndRewrite exAddF exAddFSignature []
     = Inr (success (ReplaceOp (getResultsOf exAddFDistributed)),
            exAddFCreated @ [exAddFDistributed])
   \<and> getAttr (opAttrs exAddF) ''iree.tag'' = Some (ScalarAttr ''x'')
   \<and> getAttr (createdAttrs exAddFDistributed) fastmathAttrName = Some (FastMathFlagsAttr 1)
   \<and> getAttr (createdAttrs exAddFDistributed) ''iree.tag'' = None"
proof -
  have e: "DistributeElementwise_matchAndRewrite exAddF exAddFSignature []
     = Inr (success (ReplaceOp (getResultsOf exAddFDistributed)),
            exAddFCreated @ [exAddFDistributed])"
    by code_simp
  have o: "getAttr (opAttrs exAddF) fastmathAttrName = Some (FastMathFlagsAttr 1)"
    by (simp add: exAddF_def getAttr_def fastmathAttrName_def)
  have n: "''iree.tag'' \<noteq> fastmathAttrName" by (simp add: fastmathAttrName_def)
  from DistributeElementwise_attributes [OF e]
  obtain distributedOp created where
    c: "exAddFCreated @ [exAddFDistributed] = created @ [distributedOp]"
    and f: "\<forall>a. getAttr (opAttrs exAddF) fastmathAttrName = Some a
                 \<longrightarrow> getAttr (createdAttrs distributedOp) fastmathAttrName = Some a"
    and g: "\<forall>name. name \<noteq> fastmathAttrName
                 \<longrightarrow> getAttr (createdAttrs distributedOp) name = None"
    by blast
  from c have d: "distributedOp = exAddFDistributed" by simp
  have t: "getAttr (opAttrs exAddF) ''iree.tag'' = Some (ScalarAttr ''x'')"
    by (simp add: exAddF_def getAttr_def)
  show ?thesis using e f g o n t unfolding d by blast
qed

section \<open>Properties of getReducedPermutation\<close>

lemma isProjectedPermutationLoop_dims:
  "isProjectedPermutationLoop es seen \<Longrightarrow>
     list_all isDimExpr es \<and> distinct (List.map_filter dimPosition es)
     \<and> set (List.map_filter dimPosition es) \<inter> set seen = {}
     \<and> length (List.map_filter dimPosition es) = length es"
proof (induction es seen rule: isProjectedPermutationLoop.induct)
  case (1 seen)
  then show ?case by (simp add: List.map_filter_simps)
next
  case (2 p rest seen)
  then show ?case by (auto simp add: List.map_filter_simps split: if_splits)
qed simp_all

lemma getReducedPermutationLoop_dims:
  "list_all isDimExpr es \<Longrightarrow> \<forall>p\<in>set (List.map_filter dimPosition es). lead \<le> p \<Longrightarrow>
   getReducedPermutationLoop a lead es acc =
     Inr (acc @ map (\<lambda>p. uint (p - lead)) (List.map_filter dimPosition es))"
proof (induction a lead es acc rule: getReducedPermutationLoop.induct)
  case (1 a lead acc)
  then show ?case by (simp add: List.map_filter_simps)
next
  case (2 a lead pos rest acc)
  then show ?case by (simp add: List.map_filter_simps)
qed simp_all

lemma getReducedPermutationLoop_not_dim:
  "\<not> list_all isDimExpr es \<Longrightarrow> \<exists>f. getReducedPermutationLoop a lead es acc = Inl f"
  by (induction a lead es acc rule: getReducedPermutationLoop.induct) auto

lemma isProjectedPermutation_not_dim:
  "\<not> list_all isDimExpr (getResults m) \<Longrightarrow> \<not> isProjectedPermutation m"
  using isProjectedPermutationLoop_dims [of "getResults m" "[]"]
  by (auto simp add: isProjectedPermutation_def)

lemma getReducedPermutation_fatal:
  "\<not> list_all isDimExpr (getResults m) \<Longrightarrow> \<exists>f. getReducedPermutation a m = Inl f"
  using getReducedPermutationLoop_not_dim isProjectedPermutation_not_dim
  by (simp add: getReducedPermutation_def)

lemma takeWhile_upt_prefix:
  "takeWhile Q [0..<n] = [0..<length (takeWhile Q [0..<n])]"
proof -
  have "takeWhile Q [0..<n] = take (length (takeWhile Q [0..<n])) [0..<n]"
    by (rule takeWhile_eq_take)
  also have "\<dots> = [0..<min (length (takeWhile Q [0..<n])) n]"
    by (simp add: take_upt min_def)
  also have "min (length (takeWhile Q [0..<n])) n = length (takeWhile Q [0..<n])"
    using length_takeWhile_le [of Q "[0..<n]"] by simp
  finally show ?thesis .
qed

lemma leadingProjectedDims_props:
  "leadingProjectedDims m \<le> unat (getNumDims m)"
  "d < leadingProjectedDims m \<Longrightarrow> d \<notin> set (resultPositions m)"
proof -
  let ?Q = "\<lambda>d. d \<notin> set (resultPositions m)"
  let ?n = "unat (getNumDims m)"
  show "leadingProjectedDims m \<le> ?n"
    using length_takeWhile_le [of ?Q "[0..<?n]"] by (simp add: leadingProjectedDims_def)
  assume "d < leadingProjectedDims m"
  then have "d \<in> set [0..<length (takeWhile ?Q [0..<?n])]"
    by (simp add: leadingProjectedDims_def)
  then have "d \<in> set (takeWhile ?Q [0..<?n])"
    using takeWhile_upt_prefix [of ?Q ?n] by simp
  then show "d \<notin> set (resultPositions m)"
    by (rule set_takeWhileD [THEN conjunct2])
qed

lemma leadingProjectedDims_eq:
  assumes pp: "isProjectedPermutation m" and dom: "dimsInDomain m" and lead: "projectedDimsLead m"
  shows "leadingProjectedDims m + length (getResults m) = unat (getNumDims m)"
proof -
  let ?ps = "List.map_filter dimPosition (getResults m)"
  let ?P = "set (resultPositions m)"
  let ?n = "unat (getNumDims m)"
  let ?L = "leadingProjectedDims m"
  have loop: "isProjectedPermutationLoop (getResults m) []"
    using pp by (simp add: isProjectedPermutation_def split: if_splits)
  have dist: "distinct ?ps" and len: "length ?ps = length (getResults m)"
    using isProjectedPermutationLoop_dims [OF loop] by simp_all
  have "distinct (resultPositions m)"
    unfolding resultPositions_def using dist by (simp add: distinct_map inj_on_def word_unat_eq_iff)
  then have "card ?P = length (resultPositions m)" by (rule distinct_card)
  then have card: "card ?P = length (getResults m)"
    using len by (simp add: resultPositions_def)
  have sub: "?P \<subseteq> {..<?n}"
    using dom by (auto simp add: dimsInDomain_def list_all_iff)
  have "{..<?n} - ?P = {..<?L}"
  proof
    show "{..<?n} - ?P \<subseteq> {..<?L}"
      using lead by (auto simp add: projectedDimsLead_def list_all_iff)
    show "{..<?L} \<subseteq> {..<?n} - ?P"
      using leadingProjectedDims_props [where m = m] by auto
  qed
  then have "card ({..<?n} - ?P) = ?L" by simp
  moreover have "card ({..<?n} - ?P) = ?n - card ?P"
    using sub by (simp add: card_Diff_subset)
  moreover have "card ?P \<le> ?n"
    using sub card_mono [of "{..<?n}" ?P] by simp
  ultimately show ?thesis using card by simp
qed

text \<open>
  C6, as the code has it. For every projected-permutation map whose results refer to
  dimensions of its domain and whose projected-out dimensions are a leading block, the
  reduction returns, in result order, each result's domain position minus the number of
  leading projected-out dimensions, with and without assertions.
\<close>

theorem getReducedPermutation_leading_block:
  assumes pp: "isProjectedPermutation m" and dom: "dimsInDomain m" and lead: "projectedDimsLead m"
  shows "getReducedPermutation assertions m = Inr (specReducedPermutation m)"
proof -
  let ?ps = "List.map_filter dimPosition (getResults m)"
  let ?n = "unat (getNumDims m)"
  let ?k = "length (getResults m)"
  let ?L = "leadingProjectedDims m"
  have loop: "isProjectedPermutationLoop (getResults m) []"
    using pp by (simp add: isProjectedPermutation_def split: if_splits)
  have dims: "list_all isDimExpr (getResults m)"
    using isProjectedPermutationLoop_dims [OF loop] by simp
  have sum: "?L + ?k = ?n" by (rule leadingProjectedDims_eq [OF pp dom lead])
  have nlt: "?n < 2 ^ 32" using unsigned_less [of "getNumDims m", where 'a = nat] by simp
  have "getNumDims m = of_nat ?n" by simp
  also have "\<dots> = of_nat ?L + of_nat ?k" using sum by (metis of_nat_add)
  finally have leadw: "getNumDims m - getNumResults m = of_nat ?L"
    by (simp add: getNumResults_def)
  have unatL: "unat (of_nat ?L :: 32 word) = ?L"
    using sum nlt by (simp add: unat_of_nat)
  have ge: "\<forall>p\<in>set ?ps. (of_nat ?L :: 32 word) \<le> p"
  proof
    fix p assume "p \<in> set ?ps"
    then have "unat p \<in> set (resultPositions m)" by (simp add: resultPositions_def)
    then have "\<not> unat p < ?L" using leadingProjectedDims_props(2) [where m = m and d = "unat p"] by blast
    then show "(of_nat ?L :: 32 word) \<le> p" using unatL by (simp add: word_le_nat_alt)
  qed
  have "getReducedPermutation assertions m =
          getReducedPermutationLoop assertions (of_nat ?L) (getResults m) []"
    using pp leadw by (simp add: getReducedPermutation_def)
  also have "\<dots> = Inr (map (\<lambda>p. uint (p - of_nat ?L)) ?ps)"
    using getReducedPermutationLoop_dims [OF dims ge, of assertions "[]"] by simp
  also have "map (\<lambda>p. uint (p - of_nat ?L)) ?ps = map (\<lambda>p. int (unat p) - int ?L) ?ps"
  proof (rule map_cong [OF refl])
    fix p assume "p \<in> set ?ps"
    then have le: "(of_nat ?L :: 32 word) \<le> p" using ge by blast
    have "unat (p - of_nat ?L) = unat p - ?L" using unat_sub [OF le] unatL by simp
    moreover have "?L \<le> unat p" using le unatL by (simp add: word_le_nat_alt)
    ultimately have "int (unat (p - of_nat ?L)) = int (unat p) - int ?L" by simp
    then show "uint (p - of_nat ?L) = int (unat p) - int ?L" by simp
  qed
  finally show ?thesis by (simp add: specReducedPermutation_def resultPositions_def comp_def)
qed

text \<open>
  The swap of two dimensions, no dimension projected out, reduces to [1, 0].
\<close>

theorem getReducedPermutation_swap_witness:
  "isProjectedPermutation swapMap \<and> dimsInDomain swapMap \<and> projectedDimsLead swapMap
   \<and> leadingProjectedDims swapMap = 0
   \<and> getReducedPermutation True swapMap = Inr [1, 0]
   \<and> getReducedPermutation False swapMap = Inr [1, 0]"
proof -
  have a: "isProjectedPermutation swapMap"
    by (simp add: isProjectedPermutation_def swapMap_def getNumResults_def)
  have r: "resultPositions swapMap = [1, 0]"
    by (simp add: resultPositions_def swapMap_def List.map_filter_simps)
  have n: "unat (getNumDims swapMap) = 2" by (simp add: swapMap_def)
  have l: "leadingProjectedDims swapMap = 0"
    by (simp add: leadingProjectedDims_def r n upt_rec)
  have b: "dimsInDomain swapMap" by (simp add: dimsInDomain_def r n)
  have c: "projectedDimsLead swapMap"
    by (simp add: projectedDimsLead_def r n l upt_rec)
  have s: "specReducedPermutation swapMap = [1, 0]"
    by (simp add: specReducedPermutation_def r l)
  show ?thesis
    using getReducedPermutation_leading_block [OF a b c, of True]
      getReducedPermutation_leading_block [OF a b c, of False] a b c l s by simp
qed

text \<open>
  C6 as stated fails: \<open>(d0, d1, d2) -> (d0, d2)\<close> is a projected permutation, all
  its results are dimensions, and no leading dimension is projected out, so that the
  stated result is [0, 2]. The code subtracts the number of all projected-out dimensions,
  1: with assertions the \<open>assert\<close> of source line 185 fails, without them the
  subtraction wraps around.
\<close>

theorem getReducedPermutation_skip_counterexample:
  "isProjectedPermutation skipMap \<and> list_all isDimExpr (getResults skipMap)
   \<and> resultPositions skipMap = [0, 2] \<and> leadingProjectedDims skipMap = 0
   \<and> specReducedPermutation skipMap = [0, 2]
   \<and> getReducedPermutation True skipMap = Inl (AssertionFailure ''invalid permutation map'')
   \<and> getReducedPermutation False skipMap = Inr [4294967295, 1]"
proof -
  have r: "resultPositions skipMap = [0, 2]"
    by (simp add: resultPositions_def skipMap_def List.map_filter_simps)
  have l: "leadingProjectedDims skipMap = 0"
    by code_simp
  have p: "isProjectedPermutation skipMap" by code_simp
  have d: "list_all isDimExpr (getResults skipMap)" by (simp add: skipMap_def)
  have t: "getReducedPermutation True skipMap = Inl (AssertionFailure ''invalid permutation map'')"
    by code_simp
  have f: "getReducedPermutation False skipMap = Inr [4294967295, 1]"
    by code_simp
  have s: "specReducedPermutation skipMap = [0, 2]"
    by (simp add: specReducedPermutation_def r l)
  show ?thesis using r l p d t f s by simp
qed

lemma accessMemory_fatal:
  "\<not> list_all isDimExpr (getResults (getPermutationMap xferOp)) \<Longrightarrow>
   \<exists>f. accessMemory env laneId accessUnit xferOp acc vectorLayout rw = Inl f"
  using getReducedPermutation_fatal [of "getPermutationMap xferOp" "assertionsEnabled env"]
  by (auto simp add: accessMemory_def)

text \<open>
  C7. For every map in which some result is not a reference to a domain dimension,
  the reduction terminates the process, with and without assertions; a transfer pattern
  given such a map and a layout terminates with it and returns no no-match.
\<close>

theorem getReducedPermutation_broadcast_fatal:
  assumes "\<not> list_all isDimExpr (getResults m)"
  shows "(\<exists>f. getReducedPermutation assertions m = Inl f) \<and>
         (getPermutationMap xferOp = m \<and> signature (getVector xferOp) = Some (Layout vectorLayout)
            \<longrightarrow> (\<exists>f. DistributeTransferRead_matchAndRewrite env laneId xferOp signature rw = Inl f)
              \<and> (\<exists>f. DistributeTransferWrite_matchAndRewrite env laneId xferOp signature rw = Inl f))"
proof (intro conjI impI)
  show "\<exists>f. getReducedPermutation assertions m = Inl f"
    using assms by (rule getReducedPermutation_fatal)
next
  assume a: "getPermutationMap xferOp = m \<and> signature (getVector xferOp) = Some (Layout vectorLayout)"
  then have nd: "\<not> list_all isDimExpr (getResults (getPermutationMap xferOp))"
    using assms by simp
  show "\<exists>f. DistributeTransferRead_matchAndRewrite env laneId xferOp signature rw = Inl f"
    using a accessMemory_fatal [OF nd, of env laneId TransferRead_accessUnit]
    by (simp add: DistributeTransferRead_matchAndRewrite_def Let_def) (metis old.sum.simps(5))
  show "\<exists>f. DistributeTransferWrite_matchAndRewrite env laneId xferOp signature rw = Inl f"
    using a accessMemory_fatal [OF nd, of env laneId TransferWrite_accessUnit "getVector xferOp" vectorLayout rw]
    by (auto simp add: DistributeTransferWrite_matchAndRewrite_def)
qed

theorem getReducedPermutation_broadcast_fatal_witness:
  "getReducedPermutation True broadcastMap
     = Inl (AssertionFailure ''permutation map should be a projected permutation.'')
   \<and> getReducedPermutation False broadcastMap
     = Inl (ReportFatalError ''permutation map is not a projected permutation.'')
   \<and> (\<exists>f. DistributeTransferRead_matchAndRewrite exEnvironment exLane exBroadcastTransfer
                  exTransferSignature [] = Inl f)
   \<and> (\<exists>f. DistributeTransferWrite_matchAndRewrite exEnvironment exLane exBroadcastTransfer
                  exTransferSignature [] = Inl f)"
proof -
  have nd: "\<not> list_all isDimExpr (getResults broadcastMap)" by (simp add: broadcastMap_def)
  have a: "getPermutationMap exBroadcastTransfer = broadcastMap \<and>
           exTransferSignature (getVector exBroadcastTransfer) = Some (Layout exLayout)"
    by (simp add: exBroadcastTransfer_def exMaskedTransfer_def exTransferSignature_def)
  have t: "getReducedPermutation True broadcastMap
     = Inl (AssertionFailure ''permutation map should be a projected permutation.'')"
    by (simp add: getReducedPermutation_def isProjectedPermutation_def broadcastMap_def
        getNumResults_def)
  have f: "getReducedPermutation False broadcastMap
     = Inl (ReportFatalError ''permutation map is not a projected permutation.'')"
    by (simp add: getReducedPermutation_def broadcastMap_def getNumResults_def)
  show ?thesis
    using getReducedPermutation_broadcast_fatal [OF nd, of True exBroadcastTransfer
        exTransferSignature exLayout exEnvironment exLane "[]"] a t f
    by blast
qed

section \<open>Properties of the transfer patterns\<close>

text \<open>
  Neither transfer pattern reads the mask or the in-bounds flags; both return a
  no-match for a layout of another kind.
\<close>

lemma accessUnit_mask_not_read:
  "TransferRead_accessUnit (xferOp\<lparr>getMask := newMask, getInBounds := newInBounds\<rparr>)
     = TransferRead_accessUnit xferOp"
  "TransferWrite_accessUnit (xferOp\<lparr>getMask := newMask, getInBounds := newInBounds\<rparr>)
     = TransferWrite_accessUnit xferOp"
  by (simp_all add: fun_eq_iff TransferRead_accessUnit_def TransferWrite_accessUnit_def Let_def
      split: sum.splits prod.splits)

lemma accessMemory_mask_not_read:
  assumes "accessUnit (xferOp\<lparr>getMask := newMask, getInBounds := newInBounds\<rparr>) = accessUnit xferOp"
  shows "accessMemory env laneId accessUnit
           (xferOp\<lparr>getMask := newMask, getInBounds := newInBounds\<rparr>) acc vectorLayout rw
         = accessMemory env laneId accessUnit xferOp acc vectorLayout rw"
  using assms by (simp add: accessMemory_def cong: sum.case_cong option.case_cong prod.case_cong)

lemma transfer_mask_not_read:
  "DistributeTransferRead_matchAndRewrite env laneId
       (xferOp\<lparr>getMask := newMask, getInBounds := newInBounds\<rparr>) signature rw
     = DistributeTransferRead_matchAndRewrite env laneId xferOp signature rw \<and>
   DistributeTransferWrite_matchAndRewrite env laneId
       (xferOp\<lparr>getMask := newMask, getInBounds := newInBounds\<rparr>) signature rw
     = DistributeTransferWrite_matchAndRewrite env laneId xferOp signature rw"
  by (simp add: DistributeTransferRead_matchAndRewrite_def
      DistributeTransferWrite_matchAndRewrite_def accessMemory_mask_not_read
      accessUnit_mask_not_read Let_def
      cong: option.case_cong VectorLayoutInterface.case_cong)

lemma transfer_other_layout_failure:
  assumes "signature (getVector xferOp) = Some (OtherLayout shape)"
  shows "DistributeTransferRead_matchAndRewrite env laneId xferOp signature rw = Inr (failure, rw)"
    and "DistributeTransferWrite_matchAndRewrite env laneId xferOp signature rw = Inr (failure, rw)"
  using assms
  by (simp_all add: DistributeTransferRead_matchAndRewrite_def
      DistributeTransferWrite_matchAndRewrite_def)

text \<open>
  C3. The specification has both transfer patterns return a no-match whenever the
  transfer would require partial or masked access, and the source says so at lines 281
  and 325 (TODO: return failure if we need masking). The code does not: whenever the
  value has a layout of the kind the patterns handle, neither pattern returns a no-match,
  whatever the mask and the in-bounds flags.
\<close>

theorem transfer_layout_no_failure:
  assumes "signature (getVector xferOp) = Some (Layout vectorLayout)"
  shows "\<not> failed (DistributeTransferRead_matchAndRewrite env laneId xferOp signature rw)
       \<and> \<not> failed (DistributeTransferWrite_matchAndRewrite env laneId xferOp signature rw)"
  using assms
  by (simp add: DistributeTransferRead_matchAndRewrite_def
      DistributeTransferWrite_matchAndRewrite_def Let_def split: sum.splits prod.splits)

text \<open>
  A transfer that carries a mask and is not known to be in bounds: both patterns
  succeed.
\<close>

theorem transfer_masked_succeeds:
  "requiresMasking exMaskedTransfer
   \<and> succeeded (DistributeTransferRead_matchAndRewrite exEnvironment exLane exMaskedTransfer
                  exTransferSignature [])
   \<and> succeeded (DistributeTransferWrite_matchAndRewrite exEnvironment exLane exMaskedTransfer
                  exTransferSignature [])
   \<and> \<not> failed (DistributeTransferRead_matchAndRewrite exEnvironment exLane exMaskedTransfer
                  exTransferSignature [])
   \<and> \<not> failed (DistributeTransferWrite_matchAndRewrite exEnvironment exLane exMaskedTransfer
                  exTransferSignature [])"
proof -
  have m: "requiresMasking exMaskedTransfer"
    by (simp add: requiresMasking_def exMaskedTransfer_def)
  have r: "succeeded (DistributeTransferRead_matchAndRewrite exEnvironment exLane
                  exMaskedTransfer exTransferSignature [])"
    by code_simp
  have w: "succeeded (DistributeTransferWrite_matchAndRewrite exEnvironment exLane
                  exMaskedTransfer exTransferSignature [])"
    by code_simp
  have l: "exTransferSignature (getVector exMaskedTransfer) = Some (Layout exLayout)"
    by (simp add: exTransferSignature_def exMaskedTransfer_def)
  show ?thesis
    using m r w
      transfer_layout_no_failure [where signature = exTransferSignature
        and xferOp = exMaskedTransfer and vectorLayout = exLayout and env = exEnvironment
        and laneId = exLane and rw = "[]", OF l]
    by simp
qed

end
